theory Spec2Isabelle
  imports Main "HOL-Library.Multiset"
begin

section \<open>Data model (fixit.ftypes, as used by fixit.api)\<close>

text \<open>
  A \<open>Path\<close> is identified with the text that \<open>str(path)\<close> gives, \<open>FileContent\<close> is
  \<open>bytes\<close>. The exceptions of the model are the instances of Python's class
  \<open>Exception\<close>, the class both handlers of \<^verbatim>\<open>api.py\<close> name and the type of the
  first component of \<open>Result.error\<close>; \<open>str\<close> is what \<open>str(error)\<close> gives. What is
  raised outside that class (\<open>KeyboardInterrupt\<close>, \<open>SystemExit\<close>, \<open>GeneratorExit\<close>) ends
  the run and is not part of the model.
\<close>

type_synonym Path = string

type_synonym FileContent = string

datatype Exception = Exception (class_name: string) (str: string)

text \<open>
  Modelled from the spec: the classes of \<^verbatim>\<open>ftypes.py\<close> (\<open>CodePosition\<close>, \<open>CodeRange\<close>,
  \<open>LintViolation\<close>, \<open>Config\<close>, \<open>Result\<close>) are not among the sources; the fields are those
  that \<^verbatim>\<open>api.py\<close> reads and the ones section 3 of the specification lists. The fields
  \<open>range\<close> and \<open>end\<close> carry a prime, the plain names being taken in HOL.
\<close>

record CodePosition =
  line :: int
  column :: int

record CodeRange =
  start :: CodePosition
  end' :: CodePosition

record LintViolation =
  rule_name :: string
  range' :: CodeRange
  message :: string

datatype LintRule = LintRule string

record Config =
  enable :: "string list"
  disable :: "string list"
  options :: "(string \<times> string) list"

record Result =
  path :: Path
  violation :: "LintViolation option"
  error :: "(Exception \<times> string) option"

section \<open>Generators\<close>

text \<open>
  A Python generator that is run to its end: the values it yields, in order, and how it
  ends, by returning (\<open>StopIteration\<close>) or by raising.
\<close>

datatype ('a, 'e) generator =
  StopIteration
  | Yield 'a "('a, 'e) generator"
  | Raise 'e

type_synonym 'a gen = "('a, Exception) generator"

text \<open>\<open>for x in xs: yield x\<close>, followed by the rest of the generator's body.\<close>

fun yield_each :: "'a list \<Rightarrow> ('a, 'e) generator \<Rightarrow> ('a, 'e) generator" where
  "yield_each [] k = k"
| "yield_each (x # xs) k = Yield x (yield_each xs k)"

text \<open>\<open>for x in g: yield f(x)\<close>: an exception of \<open>g\<close> leaves the loop.\<close>

fun for_yield :: "('a \<Rightarrow> 'b) \<Rightarrow> ('a, 'e) generator \<Rightarrow> ('b, 'e) generator" where
  "for_yield f StopIteration = StopIteration"
| "for_yield f (Yield x g) = Yield (f x) (for_yield f g)"
| "for_yield f (Raise e) = Raise e"

text \<open>
  \<open>try: body  except Exception as error: handler(error)\<close> in a generator: what the body
  yields is yielded, and the handler runs where the body raises.
\<close>

fun try_except :: "('a, 'e) generator \<Rightarrow> ('e \<Rightarrow> ('a, 'e) generator) \<Rightarrow> ('a, 'e) generator" where
  "try_except StopIteration h = StopIteration"
| "try_except (Yield x g) h = Yield x (try_except g h)"
| "try_except (Raise e) h = h e"

text \<open>What a consumer sees: the values yielded, and the exception that reaches it.\<close>

fun yielded :: "('a, 'e) generator \<Rightarrow> 'a list" where
  "yielded StopIteration = []"
| "yielded (Yield x g) = x # yielded g"
| "yielded (Raise e) = []"

fun raised :: "('a, 'e) generator \<Rightarrow> 'e option" where
  "raised StopIteration = None"
| "raised (Yield x g) = raised g"
| "raised (Raise e) = Some e"

text \<open>\<open>list(g)\<close>: the list of all values, or the exception.\<close>

fun list_of :: "('a, 'e) generator \<Rightarrow> 'e + 'a list" where
  "list_of StopIteration = Inr []"
| "list_of (Yield x g) = (case list_of g of Inl e \<Rightarrow> Inl e | Inr xs \<Rightarrow> Inr (x # xs))"
| "list_of (Raise e) = Inl e"

section \<open>The collaborators of fixit.api\<close>

text \<open>
  What \<^verbatim>\<open>api.py\<close> imports and calls, taken as parameters: \<open>Path.resolve\<close>,
  \<open>Path.read_bytes\<close>, \<open>generate_config\<close> and \<open>collect_rules\<close> of fixit.config,
  \<open>collect_violations\<close> of fixit.engine (a generator function), \<open>traceback.format_exc\<close>
  (its text depends on the frame that handles the exception, named by the first
  argument), \<open>trailrunner.walk\<close>, and the order in which \<open>trailrunner.run_iter\<close> hands
  back the paths it was given. Each call on a file returns or raises: \<open>resolve\<close> raises
  on a symbolic link to itself (\<open>RuntimeError\<close>, before Python 3.13), on a path with an
  embedded NUL (\<open>ValueError\<close>) and on a relative path when the working directory is
  gone (\<open>FileNotFoundError\<close>). \<open>pool_failure\<close> is the process pool of \<open>run_iter\<close> failing
  on its own when the outcome of a worker is asked for (a worker that died, a result that
  does not survive pickling): the exception of the pool, or \<open>None\<close> where the outcome of
  the worker arrives as it is. \<open>walk\<close> runs before any file is linted and is taken as
  returning.
\<close>

record env =
  resolve :: "Path \<Rightarrow> Exception + Path"
  read_bytes :: "Path \<Rightarrow> Exception + FileContent"
  generate_config :: "Path \<Rightarrow> Exception + Config"
  collect_rules :: "string list \<Rightarrow> string list \<Rightarrow> Exception + LintRule list"
  collect_violations :: "FileContent \<Rightarrow> LintRule list \<Rightarrow> Config \<Rightarrow> LintViolation gen"
  format_exc :: "string \<Rightarrow> Exception \<Rightarrow> string"
  walk :: "Path \<Rightarrow> Path list"
  run_iter_order :: "Path list \<Rightarrow> Path list"
  pool_failure :: "Path \<Rightarrow> Exception + Result list \<Rightarrow> Exception option"

section \<open>fixit.api\<close>

subsection \<open>print_result\<close>

text \<open>\<open>str\<close> of a Python int, in decimal.\<close>

definition digit_char :: "nat \<Rightarrow> char" where
  "digit_char d = ''0123456789'' ! d"

function str_nat :: "nat \<Rightarrow> string" where
  "str_nat n = (if n < 10 then [digit_char n] else str_nat (n div 10) @ [digit_char (n mod 10)])"
  by pat_completeness auto
termination
  by (relation "measure id") auto

definition str_int :: "int \<Rightarrow> string" where
  "str_int i = (if i < 0 then CHR ''-'' # str_nat (nat (- i)) else str_nat (nat i))"

text \<open>One call of \<open>click.secho(text, fg=colour)\<close>: one line of output, in a colour.\<close>

type_synonym echo = "string \<times> string"

definition secho :: "string \<Rightarrow> string \<Rightarrow> echo list" where
  "secho text fg = [(text, fg)]"

definition print_result :: "Result \<Rightarrow> bool \<Rightarrow> echo list" where
  "print_result result debug =
     (case violation result of
        Some v \<Rightarrow>
          secho (path result @ ''@'' @ str_int (line (start (range' v))) @ '':''
                   @ str_int (column (start (range' v))) @ '' '' @ rule_name v @ '': ''
                   @ message v) ''yellow''
      | None \<Rightarrow>
          (case error result of
             Some (err, tb) \<Rightarrow>
               (if debug then secho (path result @ '': '' @ str err @ '': '' @ tb) ''red''
                else secho (path result @ '': '' @ str err) ''red'')
           | None \<Rightarrow> []))"

subsection \<open>The single-file pipeline\<close>

definition violation_result :: "Path \<Rightarrow> LintViolation \<Rightarrow> Result" where
  "violation_result p v = \<lparr>path = p, violation = Some v, error = None\<rparr>"

definition error_result :: "Path \<Rightarrow> Exception \<Rightarrow> string \<Rightarrow> Result" where
  "error_result p e tb = \<lparr>path = p, violation = None, error = Some (e, tb)\<rparr>"

definition make_result :: "env \<Rightarrow> Path \<Rightarrow> LintViolation gen \<Rightarrow> Result gen" where
  "make_result env p violations =
     try_except (for_yield (violation_result p) violations)
       (\<lambda>err. Yield (error_result p err (format_exc env ''_make_result'' err)) StopIteration)"

definition fixit_bytes :: "env \<Rightarrow> Path \<Rightarrow> FileContent \<Rightarrow> Config \<Rightarrow> Result gen" where
  "fixit_bytes env p content config =
     (case collect_rules env (enable config) (disable config) of
        Inl e \<Rightarrow> Raise e
      | Inr rules \<Rightarrow> make_result env p (collect_violations env content rules config))"

text \<open>
  \<open>path = path.resolve()\<close> stands before the \<open>try\<close>: an exception of \<open>resolve\<close> is not
  caught, the generator raises it at its first step.
\<close>

definition fixit_file :: "env \<Rightarrow> Path \<Rightarrow> Result gen" where
  "fixit_file env p0 =
     (case resolve env p0 of
        Inl e \<Rightarrow> Raise e
      | Inr p \<Rightarrow>
          try_except
            (case read_bytes env p of
               Inl e \<Rightarrow> Raise e
             | Inr content \<Rightarrow>
                 (case generate_config env p of
                    Inl e \<Rightarrow> Raise e
                  | Inr config \<Rightarrow> fixit_bytes env p content config))
            (\<lambda>err. Yield (error_result p err (format_exc env ''fixit_file'' err)) StopIteration))"

subsection \<open>Many files\<close>

definition fixit_file_wrapper :: "env \<Rightarrow> Path \<Rightarrow> Exception + Result list" where
  "fixit_file_wrapper env p = list_of (fixit_file env p)"

text \<open>
  \<open>trailrunner.run_iter(paths, func)\<close>: \<open>func\<close> runs on each path in a worker of a
  process pool, and the generator yields the pairs \<open>(path, func(path))\<close>, the paths in
  the order \<open>run_iter_order\<close> gives. Where the outcome of a worker is asked for, a failure
  of the pool is raised, or else the exception that \<open>func\<close> raised in the worker.
\<close>

fun run_each :: "(Path \<Rightarrow> Exception + 'r \<Rightarrow> Exception option) \<Rightarrow> (Path \<Rightarrow> Exception + 'r)
    \<Rightarrow> Path list \<Rightarrow> (Path \<times> 'r) gen" where
  "run_each fails func [] = StopIteration"
| "run_each fails func (p # ps) =
     (case fails p (func p) of
        Some e \<Rightarrow> Raise e
      | None \<Rightarrow>
          (case func p of
             Inl e \<Rightarrow> Raise e
           | Inr r \<Rightarrow> Yield (p, r) (run_each fails func ps)))"

definition run_iter :: "env \<Rightarrow> Path list \<Rightarrow> (Path \<Rightarrow> Exception + Result list)
    \<Rightarrow> (Path \<times> Result list) gen" where
  "run_iter env paths func = run_each (pool_failure env) func (run_iter_order env paths)"

text \<open>\<open>for _, results in g: yield from results\<close>.\<close>

fun yield_from_results :: "(Path \<times> 'a list) gen \<Rightarrow> 'a gen" where
  "yield_from_results StopIteration = StopIteration"
| "yield_from_results (Yield pr g) = yield_each (snd pr) (yield_from_results g)"
| "yield_from_results (Raise e) = Raise e"

text \<open>\<open>for path in paths: expanded_paths.extend(trailrunner.walk(path))\<close>.\<close>

definition expanded_paths :: "env \<Rightarrow> Path list \<Rightarrow> Path list" where
  "expanded_paths env paths = foldl (\<lambda>acc p. acc @ walk env p) [] paths"

text \<open>
  The paths given are a list, so that \<open>not paths\<close> holds of the empty list only;
  \<open>expanded_paths[0]\<close> is read only where the list has exactly one element.
\<close>

definition fixit_paths :: "env \<Rightarrow> Path list \<Rightarrow> Result gen" where
  "fixit_paths env paths =
     (if paths = [] then StopIteration
      else if length (expanded_paths env paths) = 1 then fixit_file env (expanded_paths env paths ! 0)
      else yield_from_results (run_iter env (expanded_paths env paths) (fixit_file_wrapper env)))"

declare str_nat.simps [simp del]

section \<open>A small repository to run the pipeline on\<close>

text \<open>
  Files under \<open>/repo\<close>: \<open>a.py\<close> has two violations, \<open>clean.py\<close> none,
  \<open>crash.py\<close> makes the collector raise after one violation, \<open>missing.py\<close> cannot be
  read, the configuration of \<open>badcfg.py\<close> cannot be resolved and that of \<open>norules.py\<close>
  enables a rule that cannot be loaded; \<open>loop.py\<close> is a symbolic link to itself, which
  can neither be resolved nor read. \<open>run_iter\<close> hands the files back last first, and
  its pool does not fail.
\<close>

definition demo_violation :: "int \<Rightarrow> string \<Rightarrow> LintViolation" where
  "demo_violation l msg =
     \<lparr>rule_name = ''NoPrint'',
      range' = \<lparr>start = \<lparr>line = l, column = 4\<rparr>, end' = \<lparr>line = l, column = 9\<rparr>\<rparr>,
      message = msg\<rparr>"

definition demo_config :: "string list \<Rightarrow> Config" where
  "demo_config names = \<lparr>enable = names, disable = [], options = []\<rparr>"

definition demo_env :: env where
  "demo_env =
     \<lparr>resolve = (\<lambda>p.
        if p = ''loop.py'' then Inl (Exception ''RuntimeError'' ''Symlink loop from loop.py'')
        else Inr (''/repo/'' @ p)),
      read_bytes = (\<lambda>p.
        if p = ''/repo/missing.py'' then Inl (Exception ''FileNotFoundError'' ''No such file'')
        else if p = ''loop.py'' \<or> p = ''/repo/loop.py''
          then Inl (Exception ''OSError'' ''Too many levels of symbolic links'')
        else if p = ''/repo/crash.py'' then Inr ''crash''
        else if p = ''/repo/clean.py'' then Inr ''clean''
        else Inr ''two''),
      generate_config = (\<lambda>p.
        if p = ''/repo/badcfg.py'' then Inl (Exception ''ConfigError'' ''bad toml'')
        else if p = ''/repo/norules.py'' then Inr (demo_config [''nowhere''])
        else Inr (demo_config [''fixit.rules''])),
      collect_rules = (\<lambda>en dis.
        if ''nowhere'' \<in> set en then Inl (Exception ''CollectionError'' ''no such rule'')
        else Inr (map LintRule (filter (\<lambda>r. r \<notin> set dis) en))),
      collect_violations = (\<lambda>content rules config.
        if content = ''crash''
        then Yield (demo_violation 3 ''print'') (Raise (Exception ''ParserSyntaxError'' ''bad token''))
        else if content = ''clean'' then StopIteration
        else Yield (demo_violation 3 ''print'') (Yield (demo_violation 7 ''print'') StopIteration)),
      format_exc = (\<lambda>site e. ''Traceback: '' @ site @ '': '' @ class_name e),
      walk = (\<lambda>p.
        if p = ''src'' then [''a.py'', ''crash.py'', ''clean.py'']
        else if p = ''empty'' then []
        else [p]),
      run_iter_order = rev,
      pool_failure = (\<lambda>p outcome. None)\<rparr>"

text \<open>
  The same repository at a later run: the files can no longer be read and the text of
  a traceback differs, the rule loader and the collector are as before.
\<close>

definition demo_env_later :: env where
  "demo_env_later =
     demo_env\<lparr>read_bytes := (\<lambda>p. Inl (Exception ''PermissionError'' ''denied'')),
              format_exc := (\<lambda>site e. ''Traceback (later run): '' @ class_name e)\<rparr>"

text \<open>The same repository with a process pool that breaks on the outcome of \<open>crash.py\<close>.\<close>

definition demo_env_broken_pool :: env where
  "demo_env_broken_pool =
     demo_env\<lparr>pool_failure := (\<lambda>p outcome.
        if p = ''crash.py'' then Some (Exception ''BrokenProcessPool'' ''pool terminated abruptly'')
        else None)\<rparr>"

text \<open>
  The invariant of section 3 of the specification: exactly one of \<open>violation\<close> and
  \<open>error\<close> is set.
\<close>

definition well_formed :: "Result \<Rightarrow> bool" where
  "well_formed r \<longleftrightarrow> (violation r \<noteq> None) \<noteq> (error r \<noteq> None)"


section \<open>Generator lemmas\<close>

lemma yielded_yield_each: "yielded (yield_each xs k) = xs @ yielded k"
  by (induction xs) simp_all

lemma raised_yield_each: "raised (yield_each xs k) = raised k"
  by (induction xs) simp_all

lemma for_yield_yield_each:
  "for_yield f (yield_each xs k) = yield_each (map f xs) (for_yield f k)"
  by (induction xs) simp_all

lemma try_except_yield_each:
  "try_except (yield_each xs k) h = yield_each xs (try_except k h)"
  by (induction xs) simp_all


lemma raised_try_except:
  "(\<And>e. raised (h e) = None) \<Longrightarrow> raised (try_except g h) = None"
  by (induction g) simp_all

lemma yielded_try_except:
  "yielded (try_except g h) =
     yielded g @ (case raised g of None \<Rightarrow> [] | Some e \<Rightarrow> yielded (h e))"
  by (induction g) simp_all

lemma yielded_for_yield: "yielded (for_yield f g) = map f (yielded g)"
  by (induction g) simp_all

lemma raised_for_yield: "raised (for_yield f g) = raised g"
  by (induction g) simp_all


lemma list_of_Inr: "list_of g = Inr xs \<Longrightarrow> xs = yielded g"
  by (induction g arbitrary: xs) (auto split: sum.splits)


section \<open>The single-file pipeline\<close>

lemma yielded_make_result:
  "yielded (make_result env p g) =
     map (violation_result p) (yielded g) @
     (case raised g of None \<Rightarrow> []
      | Some e \<Rightarrow> [error_result p e (format_exc env ''_make_result'' e)])"
  by (simp add: make_result_def yielded_try_except yielded_for_yield raised_for_yield
      split: option.split)

lemma raised_make_result: "raised (make_result env p g) = None"
  by (simp add: make_result_def raised_try_except)



lemma well_formed_make_result:
  "r \<in> set (yielded (make_result env p g)) \<Longrightarrow> path r = p \<and> well_formed r"
  by (auto simp: yielded_make_result well_formed_def violation_result_def error_result_def
      split: option.splits)

lemma well_formed_fixit_bytes:
  "r \<in> set (yielded (fixit_bytes env p content config)) \<Longrightarrow> path r = p \<and> well_formed r"
  by (auto simp: fixit_bytes_def dest: well_formed_make_result split: sum.splits)

lemma well_formed_fixit_file:
  assumes "r \<in> set (yielded (fixit_file env p0))"
  shows "resolve env p0 = Inr (path r) \<and> well_formed r"
proof (cases "resolve env p0")
  case (Inl e)
  with assms show ?thesis by (simp add: fixit_file_def)
next
  case (Inr p)
  let ?body = "case read_bytes env p of
           Inl e \<Rightarrow> Raise e
         | Inr content \<Rightarrow>
             (case generate_config env p of
                Inl e \<Rightarrow> Raise e
              | Inr config \<Rightarrow> fixit_bytes env p content config)"
  from assms Inr have "r \<in> set (yielded ?body) \<or>
      (\<exists>e. r = error_result p e (format_exc env ''fixit_file'' e))"
    by (auto simp: fixit_file_def yielded_try_except split: option.splits)
  then have "path r = p \<and> well_formed r"
  proof
    assume "r \<in> set (yielded ?body)"
    then show ?thesis
      by (auto split: sum.splits dest: well_formed_fixit_bytes)
  next
    assume "\<exists>e. r = error_result p e (format_exc env ''fixit_file'' e)"
    then show ?thesis
      by (auto simp: error_result_def well_formed_def)
  qed
  with Inr show ?thesis by simp
qed

text \<open>
  A failure of reading or of resolving the configuration, on a path that \<open>resolve\<close>
  returned, is caught by the \<open>try\<close> of \<open>fixit_file\<close>.
\<close>

lemma read_or_config_failure_caught:
  assumes "resolve env p0 = Inr p"
    and "read_bytes env p = Inl e
         \<or> (\<exists>content. read_bytes env p = Inr content \<and> generate_config env p = Inl e)"
  shows "fixit_file env p0 =
           Yield \<lparr>path = p, violation = None,
                   error = Some (e, format_exc env ''fixit_file'' e)\<rparr> StopIteration"
  using assms by (auto simp: fixit_file_def error_result_def)

section \<open>Many files\<close>

lemma expanded_paths_concat: "expanded_paths env paths = concat (map (walk env) paths)"
proof -
  have "foldl (\<lambda>acc p. acc @ walk env p) acc paths = acc @ concat (map (walk env) paths)" for acc
    by (induction paths arbitrary: acc) simp_all
  then show ?thesis by (simp add: expanded_paths_def)
qed

text \<open>Whatever the pool does, what is yielded was yielded by \<open>fixit_file\<close> on one of the paths.\<close>

lemma yielded_run_each:
  "r \<in> set (yielded (yield_from_results (run_each fails (fixit_file_wrapper env) qs)))
   \<Longrightarrow> \<exists>q \<in> set qs. r \<in> set (yielded (fixit_file env q))"
proof (induction qs)
  case Nil
  then show ?case by simp
next
  case (Cons q qs)
  show ?case
  proof (cases "fails q (fixit_file_wrapper env q)")
    case (Some e)
    with Cons.prems show ?thesis by simp
  next
    case None
    show ?thesis
    proof (cases "fixit_file_wrapper env q")
      case (Inl e)
      with None Cons.prems show ?thesis by simp
    next
      case (Inr rs)
      then have rs: "rs = yielded (fixit_file env q)"
        by (simp add: fixit_file_wrapper_def list_of_Inr)
      from None Inr Cons.prems
      have "r \<in> set rs \<or>
            r \<in> set (yielded (yield_from_results (run_each fails (fixit_file_wrapper env) qs)))"
        by (simp add: yielded_yield_each)
      with rs Cons.IH show ?thesis by auto
    qed
  qed
qed


subsection \<open>Blocks of equal keys\<close>





text \<open>A pool that breaks ends the stream with the exception of the pool.\<close>

lemma broken_pool_propagates:
  "raised (fixit_paths demo_env_broken_pool [''src''])
     = Some (Exception ''BrokenProcessPool'' ''pool terminated abruptly'')
   \<and> yielded (fixit_paths demo_env_broken_pool [''src'']) = []"
  by (simp add: demo_env_broken_pool_def demo_env_def fixit_paths_def expanded_paths_def
      run_iter_def fixit_file_wrapper_def fixit_file_def fixit_bytes_def make_result_def
      demo_config_def)

lemmas demo_simps =
  demo_env_def demo_config_def demo_violation_def fixit_file_def fixit_bytes_def
  make_result_def violation_result_def error_result_def fixit_paths_def expanded_paths_def
  run_iter_def fixit_file_wrapper_def

section \<open>Claims\<close>

text \<open>
  Claim C1. When the collector yields the violations \<open>vs\<close> and then raises \<open>e\<close>,
  \<open>_make_result\<close>, and with it \<open>fixit_file\<close> when reading the file, resolving its
  configuration and loading its rules succeed, yields one Result with \<open>violation\<close> set
  for each element of \<open>vs\<close>, in the collector's order, then one Result with \<open>error\<close>
  set, and returns: the generator ends in \<open>StopIteration\<close>, not in \<open>Raise\<close>.
\<close>

theorem raise_after_k_violations:
  assumes "resolve env p0 = Inr p1"
    and "read_bytes env p1 = Inr content"
    and "generate_config env p1 = Inr config"
    and "collect_rules env (enable config) (disable config) = Inr rules"
    and "collect_violations env content rules config = yield_each vs (Raise e)"
  shows "make_result env p (yield_each vs (Raise e)) =
           yield_each (map (\<lambda>v. \<lparr>path = p, violation = Some v, error = None\<rparr>) vs)
             (Yield \<lparr>path = p, violation = None,
                     error = Some (e, format_exc env ''_make_result'' e)\<rparr> StopIteration)
       \<and> fixit_file env p0 =
           yield_each (map (\<lambda>v. \<lparr>path = p1, violation = Some v, error = None\<rparr>) vs)
             (Yield \<lparr>path = p1, violation = None,
                     error = Some (e, format_exc env ''_make_result'' e)\<rparr> StopIteration)"
proof -
  have mk: "make_result env q (yield_each vs (Raise e)) =
           yield_each (map (\<lambda>v. \<lparr>path = q, violation = Some v, error = None\<rparr>) vs)
             (Yield \<lparr>path = q, violation = None,
                     error = Some (e, format_exc env ''_make_result'' e)\<rparr> StopIteration)" for q
    by (simp add: make_result_def for_yield_yield_each try_except_yield_each
        violation_result_def [abs_def] error_result_def)
  have "fixit_file env p0 =
          try_except (make_result env p1 (yield_each vs (Raise e)))
            (\<lambda>err. Yield (error_result p1 err (format_exc env ''fixit_file'' err))
                     StopIteration)"
    using assms by (simp add: fixit_file_def fixit_bytes_def)
  then have "fixit_file env p0 =
           yield_each (map (\<lambda>v. \<lparr>path = p1, violation = Some v, error = None\<rparr>) vs)
             (Yield \<lparr>path = p1, violation = None,
                     error = Some (e, format_exc env ''_make_result'' e)\<rparr> StopIteration)"
    by (simp add: mk try_except_yield_each)
  with mk show ?thesis by simp
qed

theorem raise_after_k_violations_witness:
  "resolve demo_env ''crash.py'' = Inr ''/repo/crash.py''
   \<and> read_bytes demo_env ''/repo/crash.py'' = Inr ''crash''
   \<and> generate_config demo_env ''/repo/crash.py'' = Inr (demo_config [''fixit.rules''])
   \<and> collect_rules demo_env (enable (demo_config [''fixit.rules'']))
        (disable (demo_config [''fixit.rules''])) = Inr [LintRule ''fixit.rules'']
   \<and> collect_violations demo_env ''crash'' [LintRule ''fixit.rules''] (demo_config [''fixit.rules''])
       = yield_each [demo_violation 3 ''print''] (Raise (Exception ''ParserSyntaxError'' ''bad token''))
   \<and> fixit_file demo_env ''crash.py'' =
       Yield \<lparr>path = ''/repo/crash.py'', violation = Some (demo_violation 3 ''print''), error = None\<rparr>
         (Yield \<lparr>path = ''/repo/crash.py'', violation = None,
                 error = Some (Exception ''ParserSyntaxError'' ''bad token'',
                               ''Traceback: _make_result: ParserSyntaxError'')\<rparr>
            StopIteration)"
proof -
  have h0: "resolve demo_env ''crash.py'' = Inr ''/repo/crash.py''"
    by (simp add: demo_env_def)
  have h1: "read_bytes demo_env ''/repo/crash.py'' = Inr ''crash''"
    by (simp add: demo_env_def)
  have h2: "generate_config demo_env ''/repo/crash.py'' = Inr (demo_config [''fixit.rules''])"
    by (simp add: demo_env_def)
  have h3: "collect_rules demo_env (enable (demo_config [''fixit.rules'']))
        (disable (demo_config [''fixit.rules''])) = Inr [LintRule ''fixit.rules'']"
    by (simp add: demo_env_def demo_config_def)
  have h4: "collect_violations demo_env ''crash'' [LintRule ''fixit.rules''] (demo_config [''fixit.rules''])
       = yield_each [demo_violation 3 ''print''] (Raise (Exception ''ParserSyntaxError'' ''bad token''))"
    by (simp add: demo_env_def)
  have "fixit_file demo_env ''crash.py'' =
           yield_each (map (\<lambda>v. \<lparr>path = ''/repo/crash.py'', violation = Some v, error = None\<rparr>)
                         [demo_violation 3 ''print''])
             (Yield \<lparr>path = ''/repo/crash.py'', violation = None,
                     error = Some (Exception ''ParserSyntaxError'' ''bad token'',
                        format_exc demo_env ''_make_result'' (Exception ''ParserSyntaxError'' ''bad token''))\<rparr>
                StopIteration)"
    using raise_after_k_violations [OF h0 h1 h2 h3 h4, of "''/repo/crash.py''"] by blast
  then have "fixit_file demo_env ''crash.py'' =
       Yield \<lparr>path = ''/repo/crash.py'', violation = Some (demo_violation 3 ''print''), error = None\<rparr>
         (Yield \<lparr>path = ''/repo/crash.py'', violation = None,
                 error = Some (Exception ''ParserSyntaxError'' ''bad token'',
                               ''Traceback: _make_result: ParserSyntaxError'')\<rparr>
            StopIteration)"
    by (simp add: demo_env_def)
  with h0 h1 h2 h3 h4 show ?thesis by blast
qed

text \<open>
  Claim C2. Every Result that \<open>fixit_file\<close> or \<open>fixit_paths\<close> yields carries the
  resolved path of the file it is about, and has exactly one of \<open>violation\<close> and
  \<open>error\<close> set: never both, never neither. This holds of whatever is yielded before an
  exception of \<open>resolve\<close> or of the pool ends the stream.
\<close>

theorem yielded_results_well_formed:
  "(\<forall>r \<in> set (yielded (fixit_file env p0)).
       resolve env p0 = Inr (path r)
       \<and> ((violation r \<noteq> None \<and> error r = None) \<or> (violation r = None \<and> error r \<noteq> None)))
   \<and> (\<forall>r \<in> set (yielded (fixit_paths env paths)).
       (\<exists>q \<in> set (expanded_paths env paths) \<union> set (run_iter_order env (expanded_paths env paths)).
          resolve env q = Inr (path r))
       \<and> ((violation r \<noteq> None \<and> error r = None) \<or> (violation r = None \<and> error r \<noteq> None)))"
proof -
  have wf: "well_formed r \<Longrightarrow>
      (violation r \<noteq> None \<and> error r = None) \<or> (violation r = None \<and> error r \<noteq> None)" for r
    by (cases "violation r"; cases "error r") (simp_all add: well_formed_def)
  have one: "\<forall>r \<in> set (yielded (fixit_file env q)).
       resolve env q = Inr (path r)
       \<and> ((violation r \<noteq> None \<and> error r = None) \<or> (violation r = None \<and> error r \<noteq> None))" for q
    using well_formed_fixit_file wf by blast
  have many: "\<forall>r \<in> set (yielded (fixit_paths env paths)).
       (\<exists>q \<in> set (expanded_paths env paths) \<union> set (run_iter_order env (expanded_paths env paths)).
          resolve env q = Inr (path r))
       \<and> ((violation r \<noteq> None \<and> error r = None) \<or> (violation r = None \<and> error r \<noteq> None))"
  proof (cases "paths = []")
    case True
    then show ?thesis by (simp add: fixit_paths_def)
  next
    case False
    show ?thesis
    proof (cases "length (expanded_paths env paths) = 1")
      case True
      then obtain q where q: "expanded_paths env paths = [q]"
        by (cases "expanded_paths env paths") simp_all
      with False have "fixit_paths env paths = fixit_file env q"
        by (simp add: fixit_paths_def)
      with q one [of q] show ?thesis by simp
    next
      case False
      with \<open>paths \<noteq> []\<close> have "fixit_paths env paths =
          yield_from_results (run_each (pool_failure env) (fixit_file_wrapper env)
            (run_iter_order env (expanded_paths env paths)))"
        by (simp add: fixit_paths_def run_iter_def)
      then have "\<forall>r \<in> set (yielded (fixit_paths env paths)).
          \<exists>q \<in> set (run_iter_order env (expanded_paths env paths)).
            r \<in> set (yielded (fixit_file env q))"
        using yielded_run_each by simp
      then show ?thesis using one by blast
    qed
  qed
  from one many show ?thesis by blast
qed

theorem yielded_results_well_formed_witness:
  "\<lparr>path = ''/repo/crash.py'', violation = None,
     error = Some (Exception ''ParserSyntaxError'' ''bad token'',
                   ''Traceback: _make_result: ParserSyntaxError'')\<rparr>
     \<in> set (yielded (fixit_file demo_env ''crash.py''))
   \<and> \<lparr>path = ''/repo/a.py'', violation = Some (demo_violation 7 ''print''), error = None\<rparr>
     \<in> set (yielded (fixit_paths demo_env [''src'']))
   \<and> resolve demo_env ''crash.py'' = Inr ''/repo/crash.py''
   \<and> ''a.py'' \<in> set (expanded_paths demo_env [''src''])
   \<and> resolve demo_env ''a.py'' = Inr ''/repo/a.py''"
proof -
  let ?r1 = "\<lparr>path = ''/repo/crash.py'', violation = None,
     error = Some (Exception ''ParserSyntaxError'' ''bad token'',
                   ''Traceback: _make_result: ParserSyntaxError'')\<rparr>"
  let ?r2 = "\<lparr>path = ''/repo/a.py'', violation = Some (demo_violation 7 ''print''), error = None\<rparr>"
  have m1: "?r1 \<in> set (yielded (fixit_file demo_env ''crash.py''))"
    by (simp add: demo_simps)
  have m2: "?r2 \<in> set (yielded (fixit_paths demo_env [''src'']))"
    by (simp add: demo_simps)
  have e: "''a.py'' \<in> set (expanded_paths demo_env [''src''])"
    by (simp add: demo_simps)
  from m1 yielded_results_well_formed [of demo_env "''crash.py''" "[''src'']"]
  have "resolve demo_env ''crash.py'' = Inr (path ?r1)" by blast
  then have "resolve demo_env ''crash.py'' = Inr ''/repo/crash.py''" by simp
  moreover have "resolve demo_env ''a.py'' = Inr ''/repo/a.py''"
    by (simp add: demo_env_def)
  ultimately show ?thesis using m1 m2 e by blast
qed

text \<open>
  Claim C3. The claim asks for exactly one Result with \<open>error\<close> set for every file that
  cannot be read. \<open>fixit_file\<close> does so where \<open>resolve\<close> returns
  (\<open>read_or_config_failure_caught\<close>), but \<open>path.resolve()\<close> stands before the \<open>try\<close>: on
  a symbolic link to itself, which cannot be read either, the exception of \<open>resolve\<close>
  leaves \<open>fixit_file\<close> and no Result is yielded.
\<close>

theorem resolve_failure_escapes:
  "read_bytes demo_env ''loop.py'' = Inl (Exception ''OSError'' ''Too many levels of symbolic links'')
   \<and> resolve demo_env ''loop.py'' = Inl (Exception ''RuntimeError'' ''Symlink loop from loop.py'')
   \<and> fixit_file demo_env ''loop.py'' = Raise (Exception ''RuntimeError'' ''Symlink loop from loop.py'')
   \<and> yielded (fixit_file demo_env ''loop.py'') = []
   \<and> raised (fixit_file demo_env ''loop.py'')
       = Some (Exception ''RuntimeError'' ''Symlink loop from loop.py'')
   \<and> fixit_file demo_env ''missing.py'' =
       Yield \<lparr>path = ''/repo/missing.py'', violation = None,
               error = Some (Exception ''FileNotFoundError'' ''No such file'',
                             ''Traceback: fixit_file: FileNotFoundError'')\<rparr> StopIteration"
  by (simp add: demo_simps)




text \<open>
  Claim C5. A file that is read, whose configuration resolves, whose rules load and
  whose collector returns without a violation gives the empty generator: no Result at
  all, and the normal return as the only sign that the file is done.
\<close>

theorem clean_file_yields_nothing:
  assumes "resolve env p0 = Inr p1"
    and "read_bytes env p1 = Inr content"
    and "generate_config env p1 = Inr config"
    and "collect_rules env (enable config) (disable config) = Inr rules"
    and "collect_violations env content rules config = StopIteration"
  shows "fixit_file env p0 = StopIteration
       \<and> fixit_bytes env p1 content config = StopIteration
       \<and> make_result env p1 StopIteration = StopIteration"
  using assms by (simp add: fixit_file_def fixit_bytes_def make_result_def)

theorem clean_file_yields_nothing_witness:
  "resolve demo_env ''clean.py'' = Inr ''/repo/clean.py''
   \<and> read_bytes demo_env ''/repo/clean.py'' = Inr ''clean''
   \<and> generate_config demo_env ''/repo/clean.py'' = Inr (demo_config [''fixit.rules''])
   \<and> collect_rules demo_env (enable (demo_config [''fixit.rules'']))
        (disable (demo_config [''fixit.rules''])) = Inr [LintRule ''fixit.rules'']
   \<and> collect_violations demo_env ''clean'' [LintRule ''fixit.rules''] (demo_config [''fixit.rules''])
       = StopIteration
   \<and> fixit_file demo_env ''clean.py'' = StopIteration
   \<and> yielded (fixit_file demo_env ''clean.py'') = []"
proof -
  have h0: "resolve demo_env ''clean.py'' = Inr ''/repo/clean.py''"
    by (simp add: demo_env_def)
  have h1: "read_bytes demo_env ''/repo/clean.py'' = Inr ''clean''"
    by (simp add: demo_env_def)
  have h2: "generate_config demo_env ''/repo/clean.py'' = Inr (demo_config [''fixit.rules''])"
    by (simp add: demo_env_def)
  have h3: "collect_rules demo_env (enable (demo_config [''fixit.rules'']))
        (disable (demo_config [''fixit.rules''])) = Inr [LintRule ''fixit.rules'']"
    by (simp add: demo_env_def demo_config_def)
  have h4: "collect_violations demo_env ''clean'' [LintRule ''fixit.rules''] (demo_config [''fixit.rules''])
       = StopIteration"
    by (simp add: demo_env_def)
  have "fixit_file demo_env ''clean.py'' = StopIteration"
    using clean_file_yields_nothing [OF h0 h1 h2 h3 h4] by blast
  with h0 h1 h2 h3 h4 show ?thesis by simp
qed

text \<open>
  Claim C6. \<open>fixit_paths\<close> on no paths returns at once, yielding nothing. When the
  paths given expand to no file, it hands the empty list to \<open>run_iter\<close>, and, \<open>run_iter\<close>
  handing back nothing for no path, again yields nothing and returns.
\<close>

theorem fixit_paths_empty:
  "fixit_paths env [] = StopIteration
   \<and> (expanded_paths env paths = [] \<and> run_iter_order env [] = []
        \<longrightarrow> fixit_paths env paths = StopIteration)"
  by (simp add: fixit_paths_def run_iter_def)

theorem fixit_paths_empty_witness:
  "expanded_paths demo_env [''empty''] = [] \<and> run_iter_order demo_env [] = []
   \<and> [''empty''] \<noteq> ([] :: Path list)
   \<and> fixit_paths demo_env [''empty''] = StopIteration
   \<and> raised (fixit_paths demo_env [''empty'']) = None
   \<and> yielded (fixit_paths demo_env [''empty'']) = []"
proof -
  have h: "expanded_paths demo_env [''empty''] = [] \<and> run_iter_order demo_env [] = []"
    by (simp add: demo_env_def expanded_paths_def)
  with fixit_paths_empty [of demo_env "[''empty'']"]
  have "fixit_paths demo_env [''empty''] = StopIteration" by blast
  with h show ?thesis by simp
qed


text \<open>
  Claim C7. One line is one call of \<open>click.secho\<close>. The Results are those of the data
  model, with exactly one of \<open>violation\<close> and \<open>error\<close> set (\<open>well_formed\<close>, which by
  \<open>well_formed_fixit_file\<close> holds of every Result the pipeline yields). A Result with
  \<open>violation\<close> set is rendered as the one line \<open>path@line:column rule_name: message\<close>,
  from the start of the violation's range; a Result with \<open>error\<close> set is rendered as the
  one line \<open>path: error\<close>, and as \<open>path: error: trace\<close> when \<open>debug\<close> is true.
\<close>

theorem print_result_lines:
  assumes "well_formed r"
  shows "(violation r = Some v \<longrightarrow>
      print_result r debug =
        [(path r @ ''@'' @ str_int (line (start (range' v))) @ '':''
            @ str_int (column (start (range' v))) @ '' '' @ rule_name v @ '': '' @ message v,
          ''yellow'')])
   \<and> (error r = Some (e, tb) \<longrightarrow>
      print_result r debug =
        [(if debug then path r @ '': '' @ str e @ '': '' @ tb else path r @ '': '' @ str e,
          ''red'')])"
proof -
  from assms have "error r = Some (e, tb) \<Longrightarrow> violation r = None"
    by (cases "violation r") (simp_all add: well_formed_def)
  then show ?thesis
    by (auto simp: print_result_def secho_def)
qed

theorem print_result_lines_witness:
  "well_formed \<lparr>path = ''/repo/a.py'', violation = Some (demo_violation 12 ''print''), error = None\<rparr>
   \<and> print_result \<lparr>path = ''/repo/a.py'', violation = Some (demo_violation 12 ''print''),
                     error = None\<rparr> False
     = [(''/repo/a.py@12:4 NoPrint: print'', ''yellow'')]
   \<and> well_formed \<lparr>path = ''/repo/b.py'', violation = None,
                    error = Some (Exception ''ValueError'' ''boom'', ''Traceback: boom'')\<rparr>
   \<and> print_result \<lparr>path = ''/repo/b.py'', violation = None,
                     error = Some (Exception ''ValueError'' ''boom'', ''Traceback: boom'')\<rparr> False
     = [(''/repo/b.py: boom'', ''red'')]
   \<and> print_result \<lparr>path = ''/repo/b.py'', violation = None,
                     error = Some (Exception ''ValueError'' ''boom'', ''Traceback: boom'')\<rparr> True
     = [(''/repo/b.py: boom: Traceback: boom'', ''red'')]"
proof -
  let ?a = "\<lparr>path = ''/repo/a.py'', violation = Some (demo_violation 12 ''print''), error = None\<rparr>"
  let ?b = "\<lparr>path = ''/repo/b.py'', violation = None,
             error = Some (Exception ''ValueError'' ''boom'', ''Traceback: boom'')\<rparr>"
  have wa: "well_formed ?a" by (simp add: well_formed_def)
  have wb: "well_formed ?b" by (simp add: well_formed_def)
  have la: "print_result ?a False = [(''/repo/a.py@12:4 NoPrint: print'', ''yellow'')]"
    using print_result_lines [OF wa, of "demo_violation 12 ''print''" False]
    by (simp add: demo_violation_def str_int_def str_nat.simps digit_char_def)
  have lb: "print_result ?b False = [(''/repo/b.py: boom'', ''red'')]"
    using print_result_lines [OF wb, of _ False "Exception ''ValueError'' ''boom''" "''Traceback: boom''"]
    by simp
  have lc: "print_result ?b True = [(''/repo/b.py: boom: Traceback: boom'', ''red'')]"
    using print_result_lines [OF wb, of _ True "Exception ''ValueError'' ''boom''" "''Traceback: boom''"]
    by simp
  show ?thesis
    by (intro conjI) (rule wa, rule la, rule wb, rule lb, rule lc)
qed

text \<open>
  Claim C8. Two runs of \<open>fixit_bytes\<close> on the same path, content and configuration, in
  two environments whose rule loader and collector answer alike on them (whatever else
  differs: the file system, the configuration resolver, the text of tracebacks), yield
  the same Results with \<open>violation\<close> set, which are the collector's violations in the
  collector's order; \<open>print_result\<close> renders them alike, and in concise mode renders all
  that the two runs yield alike; the two runs end alike.
\<close>

theorem fixit_bytes_deterministic:
  assumes "collect_rules env1 (enable config) (disable config)
             = collect_rules env2 (enable config) (disable config)"
    and "\<forall>rules. collect_violations env1 content rules config
             = collect_violations env2 content rules config"
  shows "filter (\<lambda>r. violation r \<noteq> None) (yielded (fixit_bytes env1 p content config))
           = filter (\<lambda>r. violation r \<noteq> None) (yielded (fixit_bytes env2 p content config))
       \<and> filter (\<lambda>r. violation r \<noteq> None) (yielded (fixit_bytes env1 p content config))
           = (case collect_rules env1 (enable config) (disable config) of
                Inl e \<Rightarrow> []
              | Inr rules \<Rightarrow>
                  map (\<lambda>v. \<lparr>path = p, violation = Some v, error = None\<rparr>)
                    (yielded (collect_violations env1 content rules config)))
       \<and> concat (map (\<lambda>r. print_result r debug)
            (filter (\<lambda>r. violation r \<noteq> None) (yielded (fixit_bytes env1 p content config))))
           = concat (map (\<lambda>r. print_result r debug)
               (filter (\<lambda>r. violation r \<noteq> None) (yielded (fixit_bytes env2 p content config))))
       \<and> concat (map (\<lambda>r. print_result r False) (yielded (fixit_bytes env1 p content config)))
           = concat (map (\<lambda>r. print_result r False) (yielded (fixit_bytes env2 p content config)))
       \<and> raised (fixit_bytes env1 p content config) = raised (fixit_bytes env2 p content config)"
proof -
  let ?viol = "\<lambda>r::Result. violation r \<noteq> None"
  have order: "filter ?viol (yielded (fixit_bytes env p content config))
           = (case collect_rules env (enable config) (disable config) of
                Inl e \<Rightarrow> []
              | Inr rules \<Rightarrow>
                  map (\<lambda>v. \<lparr>path = p, violation = Some v, error = None\<rparr>)
                    (yielded (collect_violations env content rules config)))" for env
    by (simp add: fixit_bytes_def yielded_make_result violation_result_def [abs_def]
        error_result_def filter_map comp_def split: sum.split option.split)
  have concise: "concat (map (\<lambda>r. print_result r False) (yielded (fixit_bytes env p content config)))
           = (case collect_rules env (enable config) (disable config) of
                Inl e \<Rightarrow> []
              | Inr rules \<Rightarrow>
                  concat (map (\<lambda>v. print_result \<lparr>path = p, violation = Some v, error = None\<rparr> False)
                    (yielded (collect_violations env content rules config)))
                  @ (case raised (collect_violations env content rules config) of
                       None \<Rightarrow> []
                     | Some e \<Rightarrow> [(p @ '': '' @ str e, ''red'')]))" for env
    by (simp add: fixit_bytes_def yielded_make_result violation_result_def [abs_def]
        error_result_def comp_def print_result_def secho_def split: sum.split option.split)
  have ends: "raised (fixit_bytes env p content config)
           = (case collect_rules env (enable config) (disable config) of
                Inl e \<Rightarrow> Some e | Inr rules \<Rightarrow> None)" for env
    by (simp add: fixit_bytes_def raised_make_result split: sum.split)
  have rules_eq: "(case collect_rules env1 (enable config) (disable config) of
                Inl e \<Rightarrow> []
              | Inr rules \<Rightarrow>
                  map (\<lambda>v. \<lparr>path = p, violation = Some v, error = None\<rparr>)
                    (yielded (collect_violations env1 content rules config)))
           = (case collect_rules env2 (enable config) (disable config) of
                Inl e \<Rightarrow> []
              | Inr rules \<Rightarrow>
                  map (\<lambda>v. \<lparr>path = p, violation = Some v, error = None\<rparr>)
                    (yielded (collect_violations env2 content rules config)))"
    using assms by (simp split: sum.split)
  have same: "filter ?viol (yielded (fixit_bytes env1 p content config))
           = filter ?viol (yielded (fixit_bytes env2 p content config))"
    using rules_eq by (simp only: order)
  have rendered: "concat (map (\<lambda>r. print_result r debug)
            (filter ?viol (yielded (fixit_bytes env1 p content config))))
           = concat (map (\<lambda>r. print_result r debug)
               (filter ?viol (yielded (fixit_bytes env2 p content config))))"
    by (simp only: same)
  have all_concise: "concat (map (\<lambda>r. print_result r False) (yielded (fixit_bytes env1 p content config)))
           = concat (map (\<lambda>r. print_result r False) (yielded (fixit_bytes env2 p content config)))"
    using assms by (simp add: concise split: sum.split)
  have ends_alike: "raised (fixit_bytes env1 p content config) = raised (fixit_bytes env2 p content config)"
    using assms by (simp add: ends)
  show ?thesis
    by (intro conjI) (rule same, rule order, rule rendered, rule all_concise, rule ends_alike)
qed


theorem fixit_bytes_deterministic_witness:
  "collect_rules demo_env (enable (demo_config [''fixit.rules'']))
       (disable (demo_config [''fixit.rules'']))
     = collect_rules demo_env_later (enable (demo_config [''fixit.rules'']))
         (disable (demo_config [''fixit.rules'']))
   \<and> format_exc demo_env ''_make_result'' (Exception ''ParserSyntaxError'' ''bad token'')
     \<noteq> format_exc demo_env_later ''_make_result'' (Exception ''ParserSyntaxError'' ''bad token'')
   \<and> filter (\<lambda>r. violation r \<noteq> None)
        (yielded (fixit_bytes demo_env ''/repo/crash.py'' ''crash'' (demo_config [''fixit.rules''])))
     = [\<lparr>path = ''/repo/crash.py'', violation = Some (demo_violation 3 ''print''), error = None\<rparr>]
   \<and> filter (\<lambda>r. violation r \<noteq> None)
        (yielded (fixit_bytes demo_env_later ''/repo/crash.py'' ''crash'' (demo_config [''fixit.rules''])))
     = [\<lparr>path = ''/repo/crash.py'', violation = Some (demo_violation 3 ''print''), error = None\<rparr>]
   \<and> concat (map (\<lambda>r. print_result r False)
        (yielded (fixit_bytes demo_env_later ''/repo/crash.py'' ''crash'' (demo_config [''fixit.rules'']))))
     = [(''/repo/crash.py@3:4 NoPrint: print'', ''yellow''), (''/repo/crash.py: bad token'', ''red'')]"
proof -
  let ?cfg = "demo_config [''fixit.rules'']"
  let ?viol = "\<lambda>r::Result. violation r \<noteq> None"
  have h1: "collect_rules demo_env (enable ?cfg) (disable ?cfg)
     = collect_rules demo_env_later (enable ?cfg) (disable ?cfg)"
    by (simp add: demo_env_later_def)
  have h2: "\<forall>rules. collect_violations demo_env ''crash'' rules ?cfg
     = collect_violations demo_env_later ''crash'' rules ?cfg"
    by (simp add: demo_env_later_def)
  have differ: "format_exc demo_env ''_make_result'' (Exception ''ParserSyntaxError'' ''bad token'')
     \<noteq> format_exc demo_env_later ''_make_result'' (Exception ''ParserSyntaxError'' ''bad token'')"
    by (simp add: demo_env_later_def demo_env_def)
  have first: "filter ?viol (yielded (fixit_bytes demo_env ''/repo/crash.py'' ''crash'' ?cfg))
     = [\<lparr>path = ''/repo/crash.py'', violation = Some (demo_violation 3 ''print''), error = None\<rparr>]"
    by (simp add: demo_simps)
  have concise: "concat (map (\<lambda>r. print_result r False)
        (yielded (fixit_bytes demo_env ''/repo/crash.py'' ''crash'' ?cfg)))
     = [(''/repo/crash.py@3:4 NoPrint: print'', ''yellow''), (''/repo/crash.py: bad token'', ''red'')]"
    by (simp add: demo_simps print_result_def secho_def str_int_def str_nat.simps digit_char_def)
  note det = fixit_bytes_deterministic [OF h1 h2, of "''/repo/crash.py''" False]
  from det first
  have second: "filter ?viol (yielded (fixit_bytes demo_env_later ''/repo/crash.py'' ''crash'' ?cfg))
     = [\<lparr>path = ''/repo/crash.py'', violation = Some (demo_violation 3 ''print''), error = None\<rparr>]"
    by (elim conjE) (simp only:)
  from det concise
  have later: "concat (map (\<lambda>r. print_result r False)
        (yielded (fixit_bytes demo_env_later ''/repo/crash.py'' ''crash'' ?cfg)))
     = [(''/repo/crash.py@3:4 NoPrint: print'', ''yellow''), (''/repo/crash.py: bad token'', ''red'')]"
    by (elim conjE) (simp only:)
  show ?thesis
    by (intro conjI) (rule h1, rule differ, rule first, rule second, rule later)
qed

text \<open>
  Claim C9. On a Result with neither \<open>violation\<close> nor \<open>error\<close> set \<open>print_result\<close>
  takes neither branch: it prints nothing, and nothing in it can fail.
\<close>

theorem print_result_neither_set:
  "violation r = None \<Longrightarrow> error r = None \<Longrightarrow> print_result r debug = []"
  by (simp add: print_result_def)

theorem print_result_neither_set_witness:
  "violation \<lparr>path = ''/repo/clean.py'', violation = None, error = None\<rparr> = None
   \<and> error \<lparr>path = ''/repo/clean.py'', violation = None, error = None\<rparr> = None
   \<and> print_result \<lparr>path = ''/repo/clean.py'', violation = None, error = None\<rparr> True = []
   \<and> print_result \<lparr>path = ''/repo/clean.py'', violation = None, error = None\<rparr> False = []"
  using print_result_neither_set [of "\<lparr>path = ''/repo/clean.py'', violation = None, error = None\<rparr>" True]
    print_result_neither_set [of "\<lparr>path = ''/repo/clean.py'', violation = None, error = None\<rparr>" False]
  by simp

text \<open>
  Claim C10. When \<open>collect_rules\<close> raises for a configuration, \<open>fixit_bytes\<close> yields
  nothing and the exception reaches its caller: \<open>collect_rules\<close> is called outside the
  \<open>try\<close> of \<open>_make_result\<close>. \<open>fixit_file\<close>, for a file that is read and resolves to that
  configuration, catches the same exception and yields one Result with \<open>error\<close> set.
\<close>

theorem collect_rules_failure:
  assumes "collect_rules env (enable config) (disable config) = Inl e"
  shows "fixit_bytes env p content config = Raise e
       \<and> yielded (fixit_bytes env p content config) = []
       \<and> raised (fixit_bytes env p content config) = Some e
       \<and> (resolve env p0 = Inr p1 \<and> read_bytes env p1 = Inr content
            \<and> generate_config env p1 = Inr config
          \<longrightarrow> fixit_file env p0 =
                Yield \<lparr>path = p1, violation = None,
                        error = Some (e, format_exc env ''fixit_file'' e)\<rparr> StopIteration)"
  using assms by (simp add: fixit_bytes_def fixit_file_def error_result_def)

theorem collect_rules_failure_witness:
  "collect_rules demo_env (enable (demo_config [''nowhere''])) (disable (demo_config [''nowhere'']))
     = Inl (Exception ''CollectionError'' ''no such rule'')
   \<and> resolve demo_env ''norules.py'' = Inr ''/repo/norules.py''
   \<and> read_bytes demo_env ''/repo/norules.py'' = Inr ''two''
   \<and> generate_config demo_env ''/repo/norules.py'' = Inr (demo_config [''nowhere''])
   \<and> fixit_bytes demo_env ''/repo/norules.py'' ''two'' (demo_config [''nowhere''])
     = Raise (Exception ''CollectionError'' ''no such rule'')
   \<and> fixit_file demo_env ''norules.py'' =
       Yield \<lparr>path = ''/repo/norules.py'', violation = None,
               error = Some (Exception ''CollectionError'' ''no such rule'',
                             ''Traceback: fixit_file: CollectionError'')\<rparr> StopIteration"
proof -
  let ?cfg = "demo_config [''nowhere'']"
  let ?e = "Exception ''CollectionError'' ''no such rule''"
  have h: "collect_rules demo_env (enable ?cfg) (disable ?cfg) = Inl ?e"
    by (simp add: demo_env_def demo_config_def)
  have s: "resolve demo_env ''norules.py'' = Inr ''/repo/norules.py''"
    by (simp add: demo_env_def)
  have r: "read_bytes demo_env ''/repo/norules.py'' = Inr ''two''"
    by (simp add: demo_env_def)
  have c: "generate_config demo_env ''/repo/norules.py'' = Inr ?cfg"
    by (simp add: demo_env_def)
  note inst = collect_rules_failure [OF h, of "''/repo/norules.py''" "''two''" "''norules.py''"
      "''/repo/norules.py''"]
  from inst have bytes: "fixit_bytes demo_env ''/repo/norules.py'' ''two'' ?cfg = Raise ?e"
    by blast
  from inst s r c have "fixit_file demo_env ''norules.py'' =
                Yield \<lparr>path = ''/repo/norules.py'', violation = None,
                        error = Some (?e, format_exc demo_env ''fixit_file'' ?e)\<rparr> StopIteration"
    by blast
  then have whole: "fixit_file demo_env ''norules.py'' =
       Yield \<lparr>path = ''/repo/norules.py'', violation = None,
               error = Some (?e, ''Traceback: fixit_file: CollectionError'')\<rparr> StopIteration"
    by (simp add: demo_env_def)
  show ?thesis
    by (intro conjI) (rule h, rule s, rule r, rule c, rule bytes, rule whole)
qed

end
